theory Spec2Isabelle
  imports Main "HOL-Library.Sublist" "HOL-Library.Word" "HOL-Library.Code_Target_Nat"
begin

section \<open>Python values\<close>

text \<open>
  A Python \<open>str\<close> is a sequence of Unicode code points, so it is a list of naturals
  here: the keywords of \<open>server.py\<close> are Hangul and do not fit the eight-bit
  characters of \<open>string\<close>. An ASCII literal of the source is written \<open>ascii ''...''\<close>.
\<close>

type_synonym pystr = "nat list"

definition ascii :: "string \<Rightarrow> pystr" where
  "ascii s = map of_char s"

text \<open>
  What \<open>json.load\<close> and \<open>Response.json\<close> return, and what a tool returns to the
  host: \<open>None\<close>, \<open>bool\<close>, \<open>int\<close>, \<open>float\<close>, \<open>str\<close>, \<open>list\<close> and \<open>dict\<close>. A float is
  never inspected by \<open>server.py\<close>; it is carried as the 64 bits of its IEEE double. A
  \<open>dict\<close> is the list of its items in insertion order; \<open>map_of\<close> reads it.
\<close>

type_synonym pyfloat = "64 word"

datatype pyval =
    PNone
  | PBool bool
  | PInt int
  | PFloat pyfloat
  | PStr pystr
  | PList "pyval list"
  | PDict "(pystr \<times> pyval) list"

text \<open>
  The exceptions that can leave the functions of \<open>server.py\<close>, under their Python names.
  \<open>JSONDecodeError\<close>, \<open>UnicodeDecodeError\<close> and \<open>UnicodeEncodeError\<close> are subclasses of
  \<open>ValueError\<close>; the constructor \<open>ValueError\<close> is the plain one that \<open>open\<close> raises for a
  path with an embedded null character.
\<close>

datatype error =
    HTTPStatusError nat  \<comment> \<open>\<open>raise_for_status\<close>: the status code of the response\<close>
  | InvalidURL           \<comment> \<open>\<open>httpx\<close> refuses the URL\<close>
  | RequestError         \<comment> \<open>\<open>httpx\<close> obtained no usable response (connection, timeout, protocol)\<close>
  | UnicodeEncodeError   \<comment> \<open>\<open>open\<close>: the path cannot be encoded as a file name\<close>
  | ValueError           \<comment> \<open>\<open>open\<close>: embedded null byte\<close>
  | FileNotFoundError    \<comment> \<open>\<open>open\<close>: no such file\<close>
  | OSError              \<comment> \<open>\<open>open\<close>: any other failure (a directory, no permission)\<close>
  | JSONDecodeError      \<comment> \<open>the decoder: the text is malformed\<close>
  | UnicodeDecodeError   \<comment> \<open>the decoder: the bytes are not text\<close>
  | RecursionError       \<comment> \<open>the decoder: nesting beyond the recursion limit\<close>
  | KeyError pystr       \<comment> \<open>with its message\<close>
  | TypeError
  | AttributeError

section \<open>The operators \<open>in\<close> and \<open>[]\<close>\<close>

text \<open>\<open>sub in s\<close> on two strings: \<open>sub\<close> occurs in \<open>s\<close> at some position.\<close>

fun str_contains :: "pystr \<Rightarrow> pystr \<Rightarrow> bool" where
  "str_contains [] sub = (sub = [])"
| "str_contains (c # cs) sub = (prefix sub (c # cs) \<or> str_contains cs sub)"

text \<open>
  \<open>key in data\<close> for a string \<open>key\<close>: a \<open>dict\<close> is asked for the key, a \<open>list\<close> for an
  equal element, a \<open>str\<close> for a substring; the other values are not containers.
\<close>

fun py_in :: "pystr \<Rightarrow> pyval \<Rightarrow> error + bool" where
  "py_in key (PDict items) = Inr (map_of items key \<noteq> None)"
| "py_in key (PList xs) = Inr (PStr key \<in> set xs)"
| "py_in key (PStr s) = Inr (str_contains s key)"
| "py_in key PNone = Inl TypeError"
| "py_in key (PBool b) = Inl TypeError"
| "py_in key (PInt i) = Inl TypeError"
| "py_in key (PFloat x) = Inl TypeError"

text \<open>\<open>data[key]\<close> for a string \<open>key\<close>: only a \<open>dict\<close> is indexed by strings.\<close>

fun py_getitem :: "pyval \<Rightarrow> pystr \<Rightarrow> error + pyval" where
  "py_getitem (PDict items) key =
     (case map_of items key of None \<Rightarrow> Inl (KeyError key) | Some v \<Rightarrow> Inr v)"
| "py_getitem PNone key = Inl TypeError"
| "py_getitem (PBool b) key = Inl TypeError"
| "py_getitem (PInt i) key = Inl TypeError"
| "py_getitem (PFloat x) key = Inl TypeError"
| "py_getitem (PStr s) key = Inl TypeError"
| "py_getitem (PList xs) key = Inl TypeError"

section \<open>The world outside the process\<close>

text \<open>
  The network, the file system, the JSON decoders of \<open>httpx\<close> and of the \<open>json\<close> module,
  and the process environment are parameters. A content is a sequence of bytes. A decoder
  returns a value or raises one of three exceptions; what it accepts is its own affair
  (the decoder of Python accepts \<open>NaN\<close>, which is not JSON).
\<close>

type_synonym content = "nat list"

datatype http_outcome =
    Response nat content  \<comment> \<open>status code and body\<close>
  | NoResponse
  | BadURL

datatype file_outcome =
    Opened content
  | Absent
  | Unavailable

datatype decoded =
    Decoded pyval
  | Malformed    \<comment> \<open>\<open>JSONDecodeError\<close>\<close>
  | Undecodable  \<comment> \<open>\<open>UnicodeDecodeError\<close>\<close>
  | TooDeep      \<comment> \<open>\<open>RecursionError\<close>\<close>

record world =
  http_get :: "pystr \<Rightarrow> nat \<Rightarrow> http_outcome"  \<comment> \<open>URL, timeout in seconds\<close>
  file_open :: "pystr \<Rightarrow> file_outcome"
  resp_json :: "content \<Rightarrow> decoded"
  json_load :: "content \<Rightarrow> decoded"
  environ :: "pystr \<rightharpoonup> pystr"

text \<open>What a call asks of the outside, in order: a call of \<open>client.get\<close>, a call of \<open>open\<close>.\<close>

datatype event =
    HttpGet pystr nat  \<comment> \<open>URL, timeout in seconds\<close>
  | FileOpen pystr

type_synonym 'a outcome = "event list \<times> (error + 'a)"

section \<open>The loader and the lookup\<close>

definition is_http_url :: "pystr \<Rightarrow> bool" where
  "is_http_url source \<longleftrightarrow>
     prefix (ascii ''http://'') source \<or> prefix (ascii ''https://'') source"

text \<open>\<open>Response.raise_for_status\<close> of \<open>httpx\<close> passes the status codes 200 to 299.\<close>

definition is_success :: "nat \<Rightarrow> bool" where
  "is_success status \<longleftrightarrow> 200 \<le> status \<and> status \<le> 299"

text \<open>
  What \<open>open\<close> does with a path before it asks the file system, in CPython on POSIX with
  the UTF-8 file system encoding: the path is encoded with the error handler
  \<open>surrogateescape\<close>, which passes the surrogates U+DC80 to U+DCFF and refuses the others
  (\<open>UnicodeEncodeError\<close>); then a null character is refused (\<open>ValueError\<close>).
\<close>

definition fs_encodable :: "pystr \<Rightarrow> bool" where
  "fs_encodable path \<longleftrightarrow>
     list_all (\<lambda>c. c < 55296 \<or> 57343 < c \<or> (56448 \<le> c \<and> c \<le> 56575)) path"

text \<open>The exception of a decoder leaves the loader as it is.\<close>

fun decode_result :: "decoded \<Rightarrow> error + pyval" where
  "decode_result (Decoded data) = Inr data"
| "decode_result Malformed = Inl JSONDecodeError"
| "decode_result Undecodable = Inl UnicodeDecodeError"
| "decode_result TooDeep = Inl RecursionError"

text \<open>\<open>_load_json\<close> (a name cannot start with an underscore here).\<close>

definition load_json :: "world \<Rightarrow> pystr \<Rightarrow> pyval outcome" where
  "load_json w source =
     (if is_http_url source then
        ([HttpGet source 20],
         case http_get w source 20 of
           BadURL \<Rightarrow> Inl InvalidURL
         | NoResponse \<Rightarrow> Inl RequestError
         | Response status body \<Rightarrow>
             if is_success status then decode_result (resp_json w body)
             else Inl (HTTPStatusError status))
      else
        ([FileOpen source],
         if \<not> fs_encodable source then Inl UnicodeEncodeError
         else if 0 \<in> set source then Inl ValueError
         else
           (case file_open w source of
              Absent \<Rightarrow> Inl FileNotFoundError
            | Unavailable \<Rightarrow> Inl OSError
            | Opened c \<Rightarrow> decode_result (json_load w c))))"

text \<open>
  The message of the \<open>KeyError\<close>: two Hangul words ("not existing"), each followed by
  a space, then \<open>access_key:\<close>, a space and the key.
\<close>

definition missing_key_message :: "pystr \<Rightarrow> pystr" where
  "missing_key_message access_key =
     [51316, 51116, 54616, 51648, 32, 50506, 45716, 32] @ ascii ''access_key: '' @ access_key"

definition get_portfolio_by_key :: "world \<Rightarrow> pystr \<Rightarrow> pystr \<Rightarrow> pyval outcome" where
  "get_portfolio_by_key w access_key source =
     (case load_json w source of
        (evs, Inl e) \<Rightarrow> (evs, Inl e)
      | (evs, Inr data) \<Rightarrow>
          (evs,
           case py_in access_key data of
             Inl e \<Rightarrow> Inl e
           | Inr False \<Rightarrow> Inl (KeyError (missing_key_message access_key))
           | Inr True \<Rightarrow> py_getitem data access_key))"

definition get_portfolio_by_key_default_source :: pystr where
  "get_portfolio_by_key_default_source = ascii ''aa.json''"

definition getenv :: "world \<Rightarrow> pystr \<Rightarrow> pystr \<Rightarrow> pystr" where
  "getenv w name dflt = (case environ w name of None \<Rightarrow> dflt | Some v \<Rightarrow> v)"

text \<open>
  \<open>get_portfolio\<close>: the access key is a string or \<open>None\<close>; \<open>not access_key\<close> holds of
  \<open>None\<close> and of the empty string.
\<close>

definition falsy :: "pystr option \<Rightarrow> bool" where
  "falsy access_key \<longleftrightarrow> (case access_key of None \<Rightarrow> True | Some k \<Rightarrow> k = [])"

definition get_portfolio :: "world \<Rightarrow> pystr option \<Rightarrow> pystr \<Rightarrow> pyval outcome" where
  "get_portfolio w access_key source =
     (let access_key' =
        (if falsy access_key
         then getenv w (ascii ''DEFAULT_ACCESS_KEY'') (ascii ''user123'')
         else (case access_key of Some k \<Rightarrow> k | None \<Rightarrow> []))
      in get_portfolio_by_key w access_key' source)"

definition get_portfolio_default_source :: pystr where
  "get_portfolio_default_source = ascii ''https://jsonbin.io/689589fcf7e7a370d1f70914''"

section \<open>The classifier\<close>

text \<open>
  The ten keywords, as code points, in the order of the source: "portfolio", "my stocks",
  "my investment", "stocks held", "investment status", "my account", "my assets",
  "investment performance", "rate of return", "items held".
\<close>

definition portfolio_keywords :: "pystr list" where
  "portfolio_keywords =
     [[54252, 53944, 54260, 47532, 50724],
      [45236, 32, 51452, 49885],
      [45236, 32, 53804, 51088],
      [48372, 50976, 32, 51452, 49885],
      [53804, 51088, 32, 54788, 54889],
      [45236, 32, 44228, 51340],
      [45236, 32, 51088, 49328],
      [53804, 51088, 32, 49457, 44284],
      [49688, 51061, 47456],
      [48372, 50976, 32, 51333, 47785]]"

text \<open>The two reasons: "portfolio keywords are included." and "there are no portfolio keywords."\<close>

definition reason_related :: pystr where
  "reason_related =
     [54252, 53944, 54260, 47532, 50724, 32, 44288, 47144, 32, 53412, 50892, 46300, 44032, 32,
      54252, 54632, 46104, 50612, 32, 51080, 49845, 45768, 45796, 46]"

definition reason_unrelated :: pystr where
  "reason_unrelated =
     [54252, 53944, 54260, 47532, 50724, 32, 44288, 47144, 32, 53412, 50892, 46300, 44032, 32,
      50630, 49845, 45768, 45796, 46]"

text \<open>
  \<open>is_portfolio_question\<close>. \<open>str.lower\<close> is the Unicode lowering of the interpreter and is
  the parameter \<open>lower\<close>. The result is the \<open>dict\<close> of the three items of the source.
\<close>

definition is_portfolio_question :: "(pystr \<Rightarrow> pystr) \<Rightarrow> pystr \<Rightarrow> pyval" where
  "is_portfolio_question lower question =
     (let question_lower = lower question;
          is_related = list_ex (\<lambda>keyword. str_contains question_lower keyword) portfolio_keywords;
          reason = (if is_related then reason_related else reason_unrelated)
      in PDict
           [(ascii ''is_portfolio_related'', PBool is_related),
            (ascii ''reason'', PStr reason),
            (ascii ''detected_keywords'',
             PList (map PStr (filter (\<lambda>kw. str_contains question_lower kw) portfolio_keywords)))])"

text \<open>
  An instance of \<open>lower\<close> for concrete questions: it agrees with \<open>str.lower\<close> on every
  string of ASCII characters and Hangul syllables, which have no case.
\<close>

definition ascii_lower :: "pystr \<Rightarrow> pystr" where
  "ascii_lower s = map (\<lambda>c. if 65 \<le> c \<and> c \<le> 90 then c + 32 else c) s"

text \<open>
  The same body with the operators of Python in their general form, in which they may
  raise: the method \<open>lower\<close> exists on a \<open>str\<close> only, \<open>in\<close> is \<open>py_in\<close>, \<open>any\<close> stops at the
  first true test, and an exception in a test ends \<open>any\<close> and the comprehension. The
  argument is any value that the host may pass.
\<close>

fun py_lower :: "(pystr \<Rightarrow> pystr) \<Rightarrow> pyval \<Rightarrow> error + pyval" where
  "py_lower lower (PStr s) = Inr (PStr (lower s))"
| "py_lower lower PNone = Inl AttributeError"
| "py_lower lower (PBool b) = Inl AttributeError"
| "py_lower lower (PInt i) = Inl AttributeError"
| "py_lower lower (PFloat x) = Inl AttributeError"
| "py_lower lower (PList xs) = Inl AttributeError"
| "py_lower lower (PDict items) = Inl AttributeError"

fun py_any :: "('a \<Rightarrow> error + bool) \<Rightarrow> 'a list \<Rightarrow> error + bool" where
  "py_any test [] = Inr False"
| "py_any test (x # xs) =
     (case test x of
        Inl e \<Rightarrow> Inl e
      | Inr True \<Rightarrow> Inr True
      | Inr False \<Rightarrow> py_any test xs)"

fun py_select :: "('a \<Rightarrow> error + bool) \<Rightarrow> 'a list \<Rightarrow> error + 'a list" where
  "py_select test [] = Inr []"
| "py_select test (x # xs) =
     (case test x of
        Inl e \<Rightarrow> Inl e
      | Inr b \<Rightarrow>
          (case py_select test xs of
             Inl e \<Rightarrow> Inl e
           | Inr ys \<Rightarrow> Inr (if b then x # ys else ys)))"

definition is_portfolio_question_run :: "(pystr \<Rightarrow> pystr) \<Rightarrow> pyval \<Rightarrow> error + pyval" where
  "is_portfolio_question_run lower question =
     (case py_lower lower question of
        Inl e \<Rightarrow> Inl e
      | Inr question_lower \<Rightarrow>
          (case py_any (\<lambda>keyword. py_in keyword question_lower) portfolio_keywords of
             Inl e \<Rightarrow> Inl e
           | Inr is_related \<Rightarrow>
               (let reason = (if is_related then reason_related else reason_unrelated)
                in case py_select (\<lambda>kw. py_in kw question_lower) portfolio_keywords of
                     Inl e \<Rightarrow> Inl e
                   | Inr detected \<Rightarrow>
                       Inr (PDict
                         [(ascii ''is_portfolio_related'', PBool is_related),
                          (ascii ''reason'', PStr reason),
                          (ascii ''detected_keywords'', PList (map PStr detected))]))))"

text \<open>Reading a field of a returned \<open>dict\<close>.\<close>

fun field :: "pyval \<Rightarrow> pystr \<Rightarrow> pyval option" where
  "field (PDict items) name = map_of items name"
| "field v name = None"

fun field_names :: "pyval \<Rightarrow> pystr list" where
  "field_names (PDict items) = map fst items"
| "field_names v = []"

section \<open>JSON texts\<close>

text \<open>
  The grammar of RFC 8259 on the bytes of a content: white space, the three literals,
  numbers, strings with their escapes, arrays and objects. A byte above 127 stands for
  itself inside a string. Each function returns the rest of the input after what it has
  read, or \<open>None\<close>. The fuel of \<open>json_value\<close> bounds the number of nested and successive
  values; a text never has more values than bytes.
\<close>

definition json_ws :: "nat \<Rightarrow> bool" where
  "json_ws c \<longleftrightarrow> c = 32 \<or> c = 9 \<or> c = 10 \<or> c = 13"

definition skip_ws :: "content \<Rightarrow> content" where
  "skip_ws s = dropWhile json_ws s"

definition json_digit :: "nat \<Rightarrow> bool" where
  "json_digit c \<longleftrightarrow> 48 \<le> c \<and> c \<le> 57"

definition json_hex :: "nat \<Rightarrow> bool" where
  "json_hex c \<longleftrightarrow> json_digit c \<or> (97 \<le> c \<and> c \<le> 102) \<or> (65 \<le> c \<and> c \<le> 70)"

text \<open>What follows the opening quotation mark of a string, up to the closing one.\<close>

fun json_chars :: "content \<Rightarrow> content option" where
  "json_chars [] = None"
| "json_chars (c # cs) =
     (if c = 34 then Some cs
      else if c = 92 then
        (case cs of
           [] \<Rightarrow> None
         | e # r \<Rightarrow>
             if e \<in> set [34, 92, 47, 98, 102, 110, 114, 116] then json_chars r
             else if e = 117 \<and> 4 \<le> length r \<and> list_all json_hex (take 4 r)
             then json_chars (drop 4 r)
             else None)
      else if c < 32 then None
      else json_chars cs)"

text \<open>The exponent, the fraction and the number: \<open>-? (0 | [1-9][0-9]*) (.[0-9]+)? ([eE][+-]?[0-9]+)?\<close>.\<close>

definition json_digits1 :: "content \<Rightarrow> content option" where
  "json_digits1 s =
     (case s of [] \<Rightarrow> None | d # r \<Rightarrow> if json_digit d then Some (dropWhile json_digit r) else None)"

definition json_exp :: "content \<Rightarrow> content option" where
  "json_exp s =
     (case s of
        [] \<Rightarrow> Some s
      | e # r \<Rightarrow>
          if e = 101 \<or> e = 69 then
            (case r of
               [] \<Rightarrow> None
             | sign # r' \<Rightarrow> if sign = 43 \<or> sign = 45 then json_digits1 r' else json_digits1 r)
          else Some s)"

definition json_frac :: "content \<Rightarrow> content option" where
  "json_frac s =
     (case s of
        [] \<Rightarrow> Some s
      | p # r \<Rightarrow>
          if p = 46 then (case json_digits1 r of None \<Rightarrow> None | Some r' \<Rightarrow> json_exp r')
          else json_exp s)"

definition json_int :: "content \<Rightarrow> content option" where
  "json_int s =
     (case s of
        [] \<Rightarrow> None
      | d # r \<Rightarrow>
          if d = 48 then json_frac r
          else if 49 \<le> d \<and> d \<le> 57 then json_frac (dropWhile json_digit r)
          else None)"

definition json_number :: "content \<Rightarrow> content option" where
  "json_number s = (case s of [] \<Rightarrow> None | m # r \<Rightarrow> if m = 45 then json_int r else json_int s)"

definition json_literal :: "content \<Rightarrow> content option" where
  "json_literal s =
     (if prefix (ascii ''true'') s then Some (drop 4 s)
      else if prefix (ascii ''false'') s then Some (drop 5 s)
      else if prefix (ascii ''null'') s then Some (drop 4 s)
      else None)"

definition starts :: "nat \<Rightarrow> content \<Rightarrow> bool" where
  "starts c s \<longleftrightarrow> (case s of [] \<Rightarrow> False | x # r \<Rightarrow> x = c)"

fun json_value :: "nat \<Rightarrow> content \<Rightarrow> content option"
  and json_elements :: "nat \<Rightarrow> content \<Rightarrow> content option"
  and json_members :: "nat \<Rightarrow> content \<Rightarrow> content option" where
  "json_value 0 s = None"
| "json_value (Suc n) s =
     (if starts 123 s then
        (if starts 125 (skip_ws (tl s)) then Some (tl (skip_ws (tl s)))
         else json_members n (skip_ws (tl s)))
      else if starts 91 s then
        (if starts 93 (skip_ws (tl s)) then Some (tl (skip_ws (tl s)))
         else json_elements n (skip_ws (tl s)))
      else if starts 34 s then json_chars (tl s)
      else if starts 116 s \<or> starts 102 s \<or> starts 110 s then json_literal s
      else json_number s)"
| "json_elements 0 s = None"
| "json_elements (Suc n) s =
     (case json_value n s of
        None \<Rightarrow> None
      | Some r \<Rightarrow>
          if starts 44 (skip_ws r) then json_elements n (skip_ws (tl (skip_ws r)))
          else if starts 93 (skip_ws r) then Some (tl (skip_ws r))
          else None)"
| "json_members 0 s = None"
| "json_members (Suc n) s =
     (if starts 34 s then
        (case json_chars (tl s) of
           None \<Rightarrow> None
         | Some r \<Rightarrow>
             if starts 58 (skip_ws r) then
               (case json_value n (skip_ws (tl (skip_ws r))) of
                  None \<Rightarrow> None
                | Some r' \<Rightarrow>
                    if starts 44 (skip_ws r') then json_members n (skip_ws (tl (skip_ws r')))
                    else if starts 125 (skip_ws r') then Some (tl (skip_ws r'))
                    else None)
             else None)
      else None)"

definition valid_json :: "content \<Rightarrow> bool" where
  "valid_json s \<longleftrightarrow>
     (case json_value (Suc (length s)) (skip_ws s) of
        None \<Rightarrow> False
      | Some r \<Rightarrow> skip_ws r = [])"

section \<open>Concrete inputs\<close>

text \<open>
  Three questions: "my stocks ABC" (the second keyword, then Latin capitals), "ABC", and
  "rate of return my stocks" (the ninth keyword before the second).
\<close>

definition question_my_stocks :: pystr where
  "question_my_stocks = [45236, 32, 51452, 49885] @ ascii '' ABC''"

definition question_abc :: pystr where
  "question_abc = ascii ''ABC''"

definition question_two_keywords :: pystr where
  "question_two_keywords = [49688, 51061, 47456, 32, 45236, 32, 51452, 49885]"

text \<open>
  A world with one well-formed document, whose keys are \<open>u1\<close>, \<open>user123\<close> and the empty
  string. It is the content of the file \<open>aa.json\<close> and the body of the response to
  \<open>http://h/ok\<close>. The file \<open>bad.json\<close> and the response to \<open>https://h/bad\<close> hold a
  truncated text, the file \<open>nan.json\<close> holds the three letters \<open>NaN\<close>,
  \<open>http://h/gone\<close> answers with status 404, and no other host answers. There is no other
  file. The decoders of this world do on these three contents what the decoders of Python
  do: \<open>NaN\<close> is decoded to the float of that name, whose bits are \<open>0x7FF8000000000000\<close>.
\<close>

definition example_items :: "(pystr \<times> pyval) list" where
  "example_items =
     [(ascii ''u1'', PDict [(ascii ''x'', PInt 1)]),
      (ascii ''user123'', PDict [(ascii ''x'', PInt 2)]),
      ([], PDict [(ascii ''x'', PInt 3)])]"

definition example_document :: pyval where
  "example_document = PDict example_items"

definition good_content :: content where
  \<open>good_content = ascii ''{"u1": {"x": 1}, "user123": {"x": 2}, "": {"x": 3}}''\<close>

definition bad_content :: content where
  \<open>bad_content = ascii ''{"u1": {"x": ''\<close>

definition nan_content :: content where
  "nan_content = ascii ''NaN''"

definition example_decoder :: "content \<Rightarrow> decoded" where
  "example_decoder c =
     (if c = good_content then Decoded example_document
      else if c = nan_content then Decoded (PFloat 0x7FF8000000000000)
      else Malformed)"

definition example_world :: "(pystr \<rightharpoonup> pystr) \<Rightarrow> world" where
  "example_world env =
     \<lparr>http_get = (\<lambda>url timeout.
          if url = ascii ''http://h/ok'' then Response 200 good_content
          else if url = ascii ''https://h/bad'' then Response 200 bad_content
          else if url = ascii ''http://h/gone'' then Response 404 []
          else NoResponse),
      file_open = (\<lambda>path.
          if path = ascii ''aa.json'' then Opened good_content
          else if path = ascii ''bad.json'' then Opened bad_content
          else if path = ascii ''nan.json'' then Opened nan_content
          else Absent),
      resp_json = example_decoder,
      json_load = example_decoder,
      environ = env\<rparr>"

text \<open>The path \<open>a\<close>, a null character, \<open>b.json\<close>.\<close>

definition nul_path :: pystr where
  "nul_path = ascii ''a'' @ [0] @ ascii ''b.json''"

section \<open>Facts about the operators and the fields of the result\<close>

text \<open>
  \<open>sub in s\<close> holds exactly when \<open>s\<close> splits into a part before \<open>sub\<close>, \<open>sub\<close> itself
  and a part after it.
\<close>

lemma str_contains_sublist: "str_contains s sub \<longleftrightarrow> sublist sub s"
  by (induction s) (simp_all add: sublist_Cons_right)

lemma str_contains_iff: "str_contains s sub \<longleftrightarrow> (\<exists>pre post. s = pre @ sub @ post)"
  by (simp add: str_contains_sublist sublist_def)

lemma list_ex_keywords:
  "list_ex (str_contains s) portfolio_keywords \<longleftrightarrow>
     (\<exists>kw \<in> set portfolio_keywords. \<exists>pre post. s = pre @ kw @ post)"
  by (simp add: list_ex_iff str_contains_iff)

text \<open>
  The three items of the \<open>dict\<close> that \<open>is_portfolio_question\<close> returns.
\<close>

lemma field_is_portfolio_related:
  "field (is_portfolio_question lower q) (ascii ''is_portfolio_related'') =
     Some (PBool (list_ex (str_contains (lower q)) portfolio_keywords))"
  by (simp add: is_portfolio_question_def Let_def ascii_def)

lemma field_reason:
  "field (is_portfolio_question lower q) (ascii ''reason'') =
     Some (PStr (if list_ex (str_contains (lower q)) portfolio_keywords
                 then reason_related else reason_unrelated))"
  by (simp add: is_portfolio_question_def Let_def ascii_def)

lemma field_detected_keywords:
  "field (is_portfolio_question lower q) (ascii ''detected_keywords'') =
     Some (PList (map PStr (filter (str_contains (lower q)) portfolio_keywords)))"
  by (simp add: is_portfolio_question_def Let_def ascii_def)

text \<open>
  The lookup on a loaded \<open>dict\<close>, and the two ways in which the loader succeeds.
\<close>

lemma get_portfolio_by_key_dict:
  "snd (load_json w source) = Inr (PDict items) \<Longrightarrow>
   snd (get_portfolio_by_key w access_key source) =
     (case map_of items access_key of
        None \<Rightarrow> Inl (KeyError (missing_key_message access_key))
      | Some v \<Rightarrow> Inr v)"
  by (cases "load_json w source") (auto simp add: get_portfolio_by_key_def split: option.splits)

lemma load_json_file:
  "\<not> is_http_url source \<Longrightarrow> fs_encodable source \<Longrightarrow> 0 \<notin> set source \<Longrightarrow>
   file_open w source = Opened c \<Longrightarrow> json_load w c = Decoded data \<Longrightarrow>
   load_json w source = ([FileOpen source], Inr data)"
  by (simp add: load_json_def)

lemma load_json_http:
  "is_http_url source \<Longrightarrow> http_get w source 20 = Response status c \<Longrightarrow> is_success status \<Longrightarrow>
   resp_json w c = Decoded data \<Longrightarrow>
   load_json w source = ([HttpGet source 20], Inr data)"
  by (simp add: load_json_def)

text \<open>
  On a string, no operator of the body raises: \<open>any\<close> and the comprehension are the
  plain test and the plain filter.
\<close>

lemma py_any_total:
  "py_any (\<lambda>x. Inr (P x)) xs = Inr (list_ex P xs)"
  by (induction xs) (simp_all split: bool.splits)

lemma py_select_total:
  "py_select (\<lambda>x. Inr (P x)) xs = Inr (filter P xs)"
  by (induction xs) simp_all

lemma is_portfolio_question_run_str:
  "is_portfolio_question_run lower (PStr q) = Inr (is_portfolio_question lower q)"
proof -
  have any: "py_any (\<lambda>keyword. py_in keyword (PStr (lower q))) portfolio_keywords =
      Inr (list_ex (str_contains (lower q)) portfolio_keywords)"
    by (simp add: py_any_total)
  have select: "py_select (\<lambda>kw. py_in kw (PStr (lower q))) portfolio_keywords =
      Inr (filter (str_contains (lower q)) portfolio_keywords)"
    by (simp add: py_select_total)
  show ?thesis
    by (simp only: is_portfolio_question_run_def is_portfolio_question_def py_lower.simps
        sum.case any select Let_def)
qed

text \<open>Two results are equal exactly when the same keywords are detected.\<close>

lemma filter_eq_iff:
  "filter P xs = filter Q xs \<longleftrightarrow> (\<forall>x \<in> set xs. P x \<longleftrightarrow> Q x)"
proof
  assume "filter P xs = filter Q xs"
  then have "set (filter P xs) = set (filter Q xs)"
    by (rule arg_cong)
  then have "{x \<in> set xs. P x} = {x \<in> set xs. Q x}"
    by simp
  then show "\<forall>x \<in> set xs. P x \<longleftrightarrow> Q x"
    by blast
next
  assume "\<forall>x \<in> set xs. P x \<longleftrightarrow> Q x"
  then show "filter P xs = filter Q xs"
    by (simp cong: filter_cong)
qed

lemma is_portfolio_question_detected:
  "is_portfolio_question lower q =
     (let ks = filter (str_contains (lower q)) portfolio_keywords
      in PDict
           [(ascii ''is_portfolio_related'', PBool (ks \<noteq> [])),
            (ascii ''reason'', PStr (if ks \<noteq> [] then reason_related else reason_unrelated)),
            (ascii ''detected_keywords'', PList (map PStr ks))])"
  by (simp add: is_portfolio_question_def Let_def filter_empty_conv list_ex_iff)

lemma is_portfolio_question_eq_iff:
  "is_portfolio_question lower q1 = is_portfolio_question lower q2 \<longleftrightarrow>
     filter (str_contains (lower q1)) portfolio_keywords =
     filter (str_contains (lower q2)) portfolio_keywords"
proof
  assume "is_portfolio_question lower q1 = is_portfolio_question lower q2"
  then show "filter (str_contains (lower q1)) portfolio_keywords =
      filter (str_contains (lower q2)) portfolio_keywords"
    unfolding is_portfolio_question_def Let_def
    by (elim pyval.inject [THEN iffD1, elim_format]) (simp add: inj_map_eq_map inj_on_def)
next
  assume eq: "filter (str_contains (lower q1)) portfolio_keywords =
      filter (str_contains (lower q2)) portfolio_keywords"
  show "is_portfolio_question lower q1 = is_portfolio_question lower q2"
    unfolding is_portfolio_question_detected eq ..
qed

section \<open>The concrete inputs, evaluated\<close>

lemmas eval_question =
  question_my_stocks_def question_abc_def question_two_keywords_def
  ascii_lower_def ascii_def portfolio_keywords_def

lemma related_my_stocks:
  "list_ex (str_contains (ascii_lower question_my_stocks)) portfolio_keywords"
  by (simp add: eval_question)

lemma unrelated_abc:
  "\<not> list_ex (str_contains (ascii_lower question_abc)) portfolio_keywords"
  by (simp add: eval_question)

lemma detected_two_keywords:
  "filter (str_contains (ascii_lower question_two_keywords)) portfolio_keywords =
     [[45236, 32, 51452, 49885], [49688, 51061, 47456]]"
  by (simp add: eval_question)

lemmas eval_world =
  example_world_def example_decoder_def good_content_def bad_content_def nan_content_def



lemma bad_not_json: "\<not> valid_json bad_content"
  by code_simp

lemma good_json: "valid_json good_content"
  by code_simp

lemma path_examples:
  "fs_encodable (ascii ''aa.json'')" "0 \<notin> set (ascii ''aa.json'')"
  "fs_encodable (ascii ''bad.json'')" "0 \<notin> set (ascii ''bad.json'')"
  "fs_encodable (ascii ''nan.json'')" "0 \<notin> set (ascii ''nan.json'')"
  "fs_encodable (ascii ''none.json'')" "0 \<notin> set (ascii ''none.json'')"
  "fs_encodable nul_path" "0 \<in> set nul_path"
  "\<not> fs_encodable [55296]"
  by (simp_all add: fs_encodable_def nul_path_def ascii_def)

lemma not_http_examples:
  "\<not> is_http_url (ascii ''aa.json'')"
  "\<not> is_http_url (ascii ''bad.json'')"
  "\<not> is_http_url (ascii ''nan.json'')"
  "\<not> is_http_url (ascii ''none.json'')"
  "\<not> is_http_url nul_path"
  "\<not> is_http_url [55296]"
  by (simp_all add: is_http_url_def nul_path_def ascii_def)

lemma http_examples:
  "is_http_url (ascii ''http://h/ok'')"
  "is_http_url (ascii ''https://h/bad'')"
  "is_http_url (ascii ''http://h/gone'')"
  "is_http_url (ascii ''http://h/down'')"
  by (simp_all add: is_http_url_def ascii_def)

lemma example_world_files:
  "file_open (example_world env) (ascii ''aa.json'') = Opened good_content"
  "file_open (example_world env) (ascii ''bad.json'') = Opened bad_content"
  "file_open (example_world env) (ascii ''nan.json'') = Opened nan_content"
  "file_open (example_world env) (ascii ''none.json'') = Absent"
  "file_open (example_world env) nul_path = Absent"
  by (simp_all add: example_world_def nul_path_def ascii_def)

lemma example_world_hosts:
  "http_get (example_world env) (ascii ''http://h/ok'') 20 = Response 200 good_content"
  "http_get (example_world env) (ascii ''https://h/bad'') 20 = Response 200 bad_content"
  "http_get (example_world env) (ascii ''http://h/gone'') 20 = Response 404 []"
  "http_get (example_world env) (ascii ''http://h/down'') 20 = NoResponse"
  by (simp_all add: example_world_def ascii_def)

lemma example_world_decoders:
  "json_load (example_world env) good_content = Decoded (PDict example_items)"
  "json_load (example_world env) bad_content = Malformed"
  "json_load (example_world env) nan_content = Decoded (PFloat 0x7FF8000000000000)"
  "resp_json (example_world env) good_content = Decoded (PDict example_items)"
  "resp_json (example_world env) bad_content = Malformed"
  by (simp_all add: eval_world example_document_def ascii_def)

lemma example_world_environ:
  "environ (example_world env) = env"
  by (simp add: example_world_def)

lemma example_load:
  "load_json (example_world env) (ascii ''aa.json'') =
     ([FileOpen (ascii ''aa.json'')], Inr (PDict example_items))"
  by (simp add: load_json_file not_http_examples path_examples example_world_files
      example_world_decoders)

lemma example_lookups:
  "get_portfolio_by_key (example_world env) (ascii ''u1'') (ascii ''aa.json'') =
     ([FileOpen (ascii ''aa.json'')], Inr (PDict [(ascii ''x'', PInt 1)]))"
  "get_portfolio_by_key (example_world env) (ascii ''user123'') (ascii ''aa.json'') =
     ([FileOpen (ascii ''aa.json'')], Inr (PDict [(ascii ''x'', PInt 2)]))"
  "get_portfolio_by_key (example_world env) [] (ascii ''aa.json'') =
     ([FileOpen (ascii ''aa.json'')], Inr (PDict [(ascii ''x'', PInt 3)]))"
  by (simp_all add: get_portfolio_by_key_def example_load example_items_def)
     (simp_all add: ascii_def)

section \<open>The classifier: related questions (C1)\<close>

text \<open>
  Claim C1. For every question, the item \<open>is_portfolio_related\<close> of the result (the
  \<open>is_related\<close> of the source) is true if and only if at least one keyword of
  \<open>portfolio_keywords\<close> is a substring of the lowered question, and the list under
  \<open>detected_keywords\<close> is non-empty exactly when it is true, and empty exactly when it is
  false.
\<close>

theorem classify_is_related_iff:
  "\<exists>b ks.
     field (is_portfolio_question lower q) (ascii ''is_portfolio_related'') = Some (PBool b) \<and>
     field (is_portfolio_question lower q) (ascii ''detected_keywords'') = Some (PList (map PStr ks)) \<and>
     (b \<longleftrightarrow> (\<exists>kw \<in> set portfolio_keywords. \<exists>pre post. lower q = pre @ kw @ post)) \<and>
     (ks \<noteq> [] \<longleftrightarrow> b) \<and> (ks = [] \<longleftrightarrow> \<not> b)"
proof -
  let ?ks = "filter (str_contains (lower q)) portfolio_keywords"
  let ?b = "list_ex (str_contains (lower q)) portfolio_keywords"
  have "?ks \<noteq> [] \<longleftrightarrow> ?b"
    by (simp add: filter_empty_conv list_ex_iff)
  then show ?thesis
    using field_is_portfolio_related [of lower q] field_detected_keywords [of lower q]
      list_ex_keywords [of "lower q"]
    by blast
qed

text \<open>
  At "my stocks ABC" the flag evaluates to true, so a keyword occurs in the lowered
  question; at "ABC" it evaluates to false, so no keyword is reported.
\<close>

theorem classify_is_related_iff_witness:
  "field (is_portfolio_question ascii_lower question_my_stocks) (ascii ''is_portfolio_related'') =
     Some (PBool True) \<and>
   (\<exists>kw pre post. kw \<in> set portfolio_keywords \<and> ascii_lower question_my_stocks = pre @ kw @ post) \<and>
   field (is_portfolio_question ascii_lower question_abc) (ascii ''is_portfolio_related'') =
     Some (PBool False) \<and>
   field (is_portfolio_question ascii_lower question_abc) (ascii ''detected_keywords'') =
     Some (PList [])"
proof -
  have yes: "field (is_portfolio_question ascii_lower question_my_stocks)
      (ascii ''is_portfolio_related'') = Some (PBool True)"
    by (simp add: field_is_portfolio_related related_my_stocks)
  have no: "field (is_portfolio_question ascii_lower question_abc)
      (ascii ''is_portfolio_related'') = Some (PBool False)"
    by (simp add: field_is_portfolio_related unrelated_abc)
  from classify_is_related_iff [of ascii_lower question_my_stocks] yes
  have occurs: "\<exists>kw pre post. kw \<in> set portfolio_keywords \<and>
      ascii_lower question_my_stocks = pre @ kw @ post"
    by auto
  from classify_is_related_iff [of ascii_lower question_abc] no
  have "field (is_portfolio_question ascii_lower question_abc) (ascii ''detected_keywords'') =
      Some (PList [])"
    by auto
  with yes no occurs show ?thesis
    by simp
qed

section \<open>The lookup: missing and present keys (C2)\<close>

text \<open>
  Claim C2. When the loader returns a \<open>dict\<close> for the source: for an access key that is
  not a key of it, \<open>get_portfolio_by_key\<close> fails with a \<open>KeyError\<close> whose message ends
  with the missing key; for a key that is present, it returns the value stored at that key,
  as it is.
\<close>

theorem lookup_by_key:
  "snd (load_json w source) = Inr (PDict items) \<Longrightarrow>
   (access_key \<notin> fst ` set items \<longrightarrow>
      snd (get_portfolio_by_key w access_key source) =
        Inl (KeyError (missing_key_message access_key)) \<and>
      (\<exists>pre. missing_key_message access_key = pre @ access_key)) \<and>
   (\<forall>v. map_of items access_key = Some v \<longrightarrow>
      snd (get_portfolio_by_key w access_key source) = Inr v)"
proof -
  assume loaded: "snd (load_json w source) = Inr (PDict items)"
  have absent: "snd (get_portfolio_by_key w access_key source) =
      Inl (KeyError (missing_key_message access_key))" if "access_key \<notin> fst ` set items"
  proof -
    from that have "map_of items access_key = None"
      by (simp add: map_of_eq_None_iff)
    then show ?thesis
      by (simp add: get_portfolio_by_key_dict [OF loaded])
  qed
  have names: "\<exists>pre. missing_key_message access_key = pre @ access_key"
    unfolding missing_key_message_def by (metis append.assoc)
  have present: "snd (get_portfolio_by_key w access_key source) = Inr v"
    if "map_of items access_key = Some v" for v
    using that by (simp add: get_portfolio_by_key_dict [OF loaded])
  from absent names present show ?thesis
    by blast
qed

text \<open>
  In the example world the key \<open>nobody\<close> is missing from \<open>aa.json\<close> and \<open>u1\<close> is
  present.
\<close>

theorem lookup_by_key_witness:
  "snd (get_portfolio_by_key (example_world Map.empty) (ascii ''nobody'') (ascii ''aa.json'')) =
     Inl (KeyError (missing_key_message (ascii ''nobody''))) \<and>
   snd (get_portfolio_by_key (example_world Map.empty) (ascii ''u1'') (ascii ''aa.json'')) =
     Inr (PDict [(ascii ''x'', PInt 1)])"
proof -
  have loaded: "snd (load_json (example_world Map.empty) (ascii ''aa.json'')) =
      Inr (PDict example_items)"
    by (simp add: example_load)
  have "ascii ''nobody'' \<notin> fst ` set example_items"
    by (simp add: example_items_def ascii_def)
  moreover have "map_of example_items (ascii ''u1'') = Some (PDict [(ascii ''x'', PInt 1)])"
    by (simp add: example_items_def ascii_def)
  ultimately show ?thesis
    using lookup_by_key [OF loaded, of "ascii ''nobody''"] lookup_by_key [OF loaded, of "ascii ''u1''"]
    by blast
qed

section \<open>The lookup: round trip (C3)\<close>

text \<open>
  Claim C3. Round trip: when the content found at the source (a file under a path that
  \<open>open\<close> accepts, or the body of a response with a status from 200 to 299) decodes to a
  \<open>dict\<close>, the lookup of each of its keys returns exactly the value that the \<open>dict\<close> stores
  under the key; with the keys distinct, as in every Python \<open>dict\<close>, each item of the
  document is returned at its key.
\<close>

theorem lookup_round_trip:
  assumes "(\<not> is_http_url source \<and> fs_encodable source \<and> 0 \<notin> set source \<and>
              file_open w source = Opened c \<and> json_load w c = Decoded (PDict items)) \<or>
           (is_http_url source \<and> http_get w source 20 = Response status c \<and>
              is_success status \<and> resp_json w c = Decoded (PDict items))"
  shows "(\<forall>key v. map_of items key = Some v \<longrightarrow>
            snd (get_portfolio_by_key w key source) = Inr v) \<and>
         (distinct (map fst items) \<longrightarrow>
            (\<forall>(key, v) \<in> set items. snd (get_portfolio_by_key w key source) = Inr v))"
proof -
  from assms have loaded: "snd (load_json w source) = Inr (PDict items)"
    by (auto simp add: load_json_file load_json_http)
  have stored: "snd (get_portfolio_by_key w key source) = Inr v"
    if "map_of items key = Some v" for key v
    using that by (simp add: get_portfolio_by_key_dict [OF loaded])
  have "snd (get_portfolio_by_key w key source) = Inr v"
    if "distinct (map fst items)" and "(key, v) \<in> set items" for key v
    using that by (simp add: stored)
  with stored show ?thesis
    by blast
qed

text \<open>
  The three items of the example document, read from the file, and one read over HTTP.
\<close>

theorem lookup_round_trip_witness:
  "snd (get_portfolio_by_key (example_world Map.empty) (ascii ''u1'') (ascii ''aa.json'')) =
     Inr (PDict [(ascii ''x'', PInt 1)]) \<and>
   snd (get_portfolio_by_key (example_world Map.empty) (ascii ''user123'') (ascii ''aa.json'')) =
     Inr (PDict [(ascii ''x'', PInt 2)]) \<and>
   snd (get_portfolio_by_key (example_world Map.empty) [] (ascii ''aa.json'')) =
     Inr (PDict [(ascii ''x'', PInt 3)]) \<and>
   snd (get_portfolio_by_key (example_world Map.empty) (ascii ''u1'') (ascii ''http://h/ok'')) =
     Inr (PDict [(ascii ''x'', PInt 1)])"
proof -
  have keys: "distinct (map fst example_items)"
    by (simp add: example_items_def ascii_def)
  have "(\<not> is_http_url (ascii ''aa.json'') \<and> fs_encodable (ascii ''aa.json'') \<and>
           0 \<notin> set (ascii ''aa.json'') \<and>
           file_open (example_world Map.empty) (ascii ''aa.json'') = Opened good_content \<and>
           json_load (example_world Map.empty) good_content = Decoded (PDict example_items)) \<or>
        (is_http_url (ascii ''aa.json'') \<and>
           http_get (example_world Map.empty) (ascii ''aa.json'') 20 = Response 0 good_content \<and>
           is_success 0 \<and>
           resp_json (example_world Map.empty) good_content = Decoded (PDict example_items))"
    by (simp add: not_http_examples path_examples example_world_files example_world_decoders)
  from lookup_round_trip [OF this] keys
  have from_file: "\<forall>(key, v) \<in> set example_items.
      snd (get_portfolio_by_key (example_world Map.empty) key (ascii ''aa.json'')) = Inr v"
    by blast
  have "(\<not> is_http_url (ascii ''http://h/ok'') \<and> fs_encodable (ascii ''http://h/ok'') \<and>
           0 \<notin> set (ascii ''http://h/ok'') \<and>
           file_open (example_world Map.empty) (ascii ''http://h/ok'') = Opened good_content \<and>
           json_load (example_world Map.empty) good_content = Decoded (PDict example_items)) \<or>
        (is_http_url (ascii ''http://h/ok'') \<and>
           http_get (example_world Map.empty) (ascii ''http://h/ok'') 20 = Response 200 good_content \<and>
           is_success 200 \<and>
           resp_json (example_world Map.empty) good_content = Decoded (PDict example_items))"
    by (simp add: http_examples example_world_hosts example_world_decoders is_success_def)
  from lookup_round_trip [OF this] keys
  have from_http: "\<forall>(key, v) \<in> set example_items.
      snd (get_portfolio_by_key (example_world Map.empty) key (ascii ''http://h/ok'')) = Inr v"
    by blast
  from from_file from_http show ?thesis
    by (simp add: example_items_def)
qed

section \<open>The loader (C4)\<close>




section \<open>The classifier: detected keywords (C5)\<close>

text \<open>
  Claim C5. For every question, the list under \<open>detected_keywords\<close> holds exactly the
  keywords of \<open>portfolio_keywords\<close> that are substrings of the lowered question, each
  once, in the order in which they stand in \<open>portfolio_keywords\<close>.
\<close>

theorem classify_matched_keywords:
  "\<exists>ks.
     field (is_portfolio_question lower q) (ascii ''detected_keywords'') = Some (PList (map PStr ks)) \<and>
     set ks = {kw \<in> set portfolio_keywords. \<exists>pre post. lower q = pre @ kw @ post} \<and>
     subseq ks portfolio_keywords \<and> distinct ks"
proof -
  let ?ks = "filter (str_contains (lower q)) portfolio_keywords"
  have "set ?ks = {kw \<in> set portfolio_keywords. \<exists>pre post. lower q = pre @ kw @ post}"
    by (simp add: str_contains_iff)
  moreover have "subseq ?ks portfolio_keywords"
    by simp
  moreover have "distinct ?ks"
    by (rule distinct_filter) (simp add: portfolio_keywords_def)
  ultimately show ?thesis
    using field_detected_keywords [of lower q] by blast
qed

text \<open>
  At "rate of return my stocks" the ninth keyword comes first in the question and second
  in the result.
\<close>

theorem classify_matched_keywords_witness:
  "field (is_portfolio_question ascii_lower question_two_keywords) (ascii ''detected_keywords'') =
     Some (PList [PStr [45236, 32, 51452, 49885], PStr [49688, 51061, 47456]]) \<and>
   subseq [[45236, 32, 51452, 49885], [49688, 51061, 47456]] portfolio_keywords \<and>
   (\<exists>pre post. ascii_lower question_two_keywords = pre @ [49688, 51061, 47456] @ post)"
proof -
  have ev: "field (is_portfolio_question ascii_lower question_two_keywords)
      (ascii ''detected_keywords'') =
      Some (PList [PStr [45236, 32, 51452, 49885], PStr [49688, 51061, 47456]])"
    by (simp add: field_detected_keywords detected_two_keywords)
  from classify_matched_keywords [of ascii_lower question_two_keywords]
  obtain ks where ks:
    "field (is_portfolio_question ascii_lower question_two_keywords) (ascii ''detected_keywords'') =
       Some (PList (map PStr ks))"
    "set ks = {kw \<in> set portfolio_keywords.
       \<exists>pre post. ascii_lower question_two_keywords = pre @ kw @ post}"
    "subseq ks portfolio_keywords"
    by blast
  from ks(1) ev have "map PStr ks = [PStr [45236, 32, 51452, 49885], PStr [49688, 51061, 47456]]"
    by simp
  then have eq: "ks = [[45236, 32, 51452, 49885], [49688, 51061, 47456]]"
    by (auto simp add: map_eq_Cons_conv)
  have "[49688, 51061, 47456] \<in> set ks"
    unfolding eq by simp
  then have "[49688, 51061, 47456] \<in> {kw \<in> set portfolio_keywords.
       \<exists>pre post. ascii_lower question_two_keywords = pre @ kw @ post}"
    unfolding ks(2) .
  then have "\<exists>pre post. ascii_lower question_two_keywords = pre @ [49688, 51061, 47456] @ post"
    by simp
  with ev ks(3) eq show ?thesis
    by simp
qed

section \<open>The classifier: fields of the result (C6)\<close>

text \<open>
  Claim C6, amended. For every question, the result has exactly three fields, named
  \<open>is_portfolio_related\<close> (a boolean), \<open>reason\<close> (a string) and \<open>detected_keywords\<close> (a
  list of strings), in this order. The names \<open>is_related\<close> and \<open>matched_keywords\<close> are not
  names of fields of the result.
\<close>

theorem classify_fields:
  "field_names (is_portfolio_question lower q) =
     [ascii ''is_portfolio_related'', ascii ''reason'', ascii ''detected_keywords''] \<and>
   distinct (field_names (is_portfolio_question lower q)) \<and>
   (\<exists>b. field (is_portfolio_question lower q) (ascii ''is_portfolio_related'') = Some (PBool b)) \<and>
   (\<exists>s. field (is_portfolio_question lower q) (ascii ''reason'') = Some (PStr s)) \<and>
   (\<exists>ks. field (is_portfolio_question lower q) (ascii ''detected_keywords'') =
           Some (PList (map PStr ks)))"
proof -
  have "field_names (is_portfolio_question lower q) =
     [ascii ''is_portfolio_related'', ascii ''reason'', ascii ''detected_keywords'']"
    by (simp add: is_portfolio_question_def Let_def)
  moreover have "distinct [ascii ''is_portfolio_related'', ascii ''reason'', ascii ''detected_keywords'']"
    by (simp add: ascii_def)
  ultimately show ?thesis
    using field_is_portfolio_related [of lower q] field_reason [of lower q]
      field_detected_keywords [of lower q]
    by auto
qed

theorem classify_fields_witness:
  "field_names (is_portfolio_question ascii_lower question_abc) =
     [ascii ''is_portfolio_related'', ascii ''reason'', ascii ''detected_keywords'']"
  using classify_fields [of ascii_lower question_abc] by simp

text \<open>
  Claim C6 as stated: the names of the fields are \<open>is_related\<close>, \<open>reason\<close> and
  \<open>matched_keywords\<close>. It fails at the question "abc", as at every question.
\<close>

theorem classify_fields_counterexample:
  "set (field_names (is_portfolio_question ascii_lower (ascii ''abc''))) \<noteq>
     {ascii ''is_related'', ascii ''reason'', ascii ''matched_keywords''}"
proof
  assume eq: "set (field_names (is_portfolio_question ascii_lower (ascii ''abc''))) =
     {ascii ''is_related'', ascii ''reason'', ascii ''matched_keywords''}"
  have "ascii ''is_related'' \<in> {ascii ''is_related'', ascii ''reason'', ascii ''matched_keywords''}"
    by simp
  then have "ascii ''is_related'' \<in> set (field_names (is_portfolio_question ascii_lower (ascii ''abc'')))"
    unfolding eq .
  then show False
    by (simp add: is_portfolio_question_def Let_def ascii_def)
qed

section \<open>The default access key (C7)\<close>

text \<open>
  Claim C7, amended. When the caller supplies no access key (\<open>None\<close>), the key of the
  lookup is the value of the environment variable \<open>DEFAULT_ACCESS_KEY\<close> when it is set,
  and \<open>user123\<close> otherwise; a caller-supplied access key that is not the empty string is
  used as given.
\<close>

theorem get_portfolio_access_key:
  "get_portfolio w None source =
     get_portfolio_by_key w
       (case environ w (ascii ''DEFAULT_ACCESS_KEY'') of
          Some v \<Rightarrow> v | None \<Rightarrow> ascii ''user123'') source \<and>
   (key \<noteq> [] \<longrightarrow> get_portfolio w (Some key) source = get_portfolio_by_key w key source)"
  by (simp add: get_portfolio_def falsy_def getenv_def split: option.splits)

text \<open>
  With the variable unset, with the variable set to \<open>u1\<close>, and with the key \<open>u1\<close>
  supplied.
\<close>

theorem get_portfolio_access_key_witness:
  "get_portfolio (example_world Map.empty) None (ascii ''aa.json'') =
     ([FileOpen (ascii ''aa.json'')], Inr (PDict [(ascii ''x'', PInt 2)])) \<and>
   get_portfolio (example_world [ascii ''DEFAULT_ACCESS_KEY'' \<mapsto> ascii ''u1'']) None (ascii ''aa.json'') =
     ([FileOpen (ascii ''aa.json'')], Inr (PDict [(ascii ''x'', PInt 1)])) \<and>
   get_portfolio (example_world Map.empty) (Some (ascii ''u1'')) (ascii ''aa.json'') =
     ([FileOpen (ascii ''aa.json'')], Inr (PDict [(ascii ''x'', PInt 1)]))"
proof -
  have "ascii ''u1'' \<noteq> []"
    by (simp add: ascii_def)
  then show ?thesis
    using get_portfolio_access_key [of "example_world Map.empty" "ascii ''aa.json''" "ascii ''u1''"]
      get_portfolio_access_key [of "example_world [ascii ''DEFAULT_ACCESS_KEY'' \<mapsto> ascii ''u1'']"
        "ascii ''aa.json''" "ascii ''u1''"]
    by (simp add: example_world_environ example_lookups)
qed

text \<open>
  Claim C7 as stated: every caller-supplied access key is used as given. With the
  variable unset, the supplied key \<open>""\<close> gives the record of \<open>user123\<close>, and not the
  record that the document stores under \<open>""\<close>.
\<close>

theorem get_portfolio_access_key_counterexample:
  "get_portfolio (example_world Map.empty) (Some []) (ascii ''aa.json'') \<noteq>
     get_portfolio_by_key (example_world Map.empty) [] (ascii ''aa.json'') \<and>
   get_portfolio (example_world Map.empty) (Some []) (ascii ''aa.json'') =
     ([FileOpen (ascii ''aa.json'')], Inr (PDict [(ascii ''x'', PInt 2)])) \<and>
   get_portfolio_by_key (example_world Map.empty) [] (ascii ''aa.json'') =
     ([FileOpen (ascii ''aa.json'')], Inr (PDict [(ascii ''x'', PInt 3)]))"
  by (simp add: get_portfolio_def falsy_def getenv_def example_world_environ example_lookups)

section \<open>The classifier: reason (C8)\<close>

text \<open>
  Claim C8. For every question, the field \<open>reason\<close> is one of two fixed, different
  strings: \<open>reason_related\<close> when \<open>is_portfolio_related\<close> is true and \<open>reason_unrelated\<close>
  when it is false.
\<close>

theorem classify_reason:
  "reason_related \<noteq> reason_unrelated \<and>
   (\<exists>b. field (is_portfolio_question lower q) (ascii ''is_portfolio_related'') = Some (PBool b) \<and>
        field (is_portfolio_question lower q) (ascii ''reason'') =
          Some (PStr (if b then reason_related else reason_unrelated)))"
  using field_is_portfolio_related [of lower q] field_reason [of lower q]
  by (simp add: reason_related_def reason_unrelated_def)

theorem classify_reason_witness:
  "field (is_portfolio_question ascii_lower question_my_stocks) (ascii ''reason'') =
     Some (PStr reason_related) \<and>
   field (is_portfolio_question ascii_lower question_abc) (ascii ''reason'') =
     Some (PStr reason_unrelated)"
proof -
  have yes: "field (is_portfolio_question ascii_lower question_my_stocks)
      (ascii ''is_portfolio_related'') = Some (PBool True)"
    by (simp add: field_is_portfolio_related related_my_stocks)
  have no: "field (is_portfolio_question ascii_lower question_abc)
      (ascii ''is_portfolio_related'') = Some (PBool False)"
    by (simp add: field_is_portfolio_related unrelated_abc)
  from classify_reason [of ascii_lower question_my_stocks] yes
  have "field (is_portfolio_question ascii_lower question_my_stocks) (ascii ''reason'') =
     Some (PStr reason_related)"
    by auto
  moreover from classify_reason [of ascii_lower question_abc] no
  have "field (is_portfolio_question ascii_lower question_abc) (ascii ''reason'') =
     Some (PStr reason_unrelated)"
    by auto
  ultimately show ?thesis
    by simp
qed

section \<open>The classifier: a total function of the question (C9)\<close>

text \<open>
  Claim C9. With every operator of the body in its general form, which may raise, the call
  on a string never raises: it returns the classification. Its result depends on the
  question through the lowered text and the keyword list only, and on exactly this much
  of them: two calls return the same result if and only if the same keywords of
  \<open>portfolio_keywords\<close> occur in the two lowered questions. In particular two calls with
  the same question return the same result.
\<close>

theorem classify_deterministic_total:
  "is_portfolio_question_run lower (PStr q1) = Inr (is_portfolio_question lower q1) \<and>
   (is_portfolio_question_run lower (PStr q1) = is_portfolio_question_run lower (PStr q2) \<longleftrightarrow>
      (\<forall>kw \<in> set portfolio_keywords.
         (\<exists>pre post. lower q1 = pre @ kw @ post) \<longleftrightarrow>
         (\<exists>pre post. lower q2 = pre @ kw @ post)))"
proof -
  have "is_portfolio_question_run lower (PStr q1) = is_portfolio_question_run lower (PStr q2) \<longleftrightarrow>
      filter (str_contains (lower q1)) portfolio_keywords =
      filter (str_contains (lower q2)) portfolio_keywords"
    by (simp only: is_portfolio_question_run_str sum.inject is_portfolio_question_eq_iff)
  also have "\<dots> \<longleftrightarrow> (\<forall>kw \<in> set portfolio_keywords.
      str_contains (lower q1) kw \<longleftrightarrow> str_contains (lower q2) kw)"
    by (rule filter_eq_iff)
  finally show ?thesis
    by (simp only: is_portfolio_question_run_str str_contains_iff simp_thms)
qed

text \<open>
  "ABC" and "abc" are different questions in which the same keywords occur (none), and
  their results are equal; the second keyword occurs in "my stocks ABC" and not in "ABC",
  and their results differ. A value that is not a string has no method \<open>lower\<close>.
\<close>

theorem classify_deterministic_total_witness:
  "question_abc \<noteq> ascii ''abc'' \<and>
   is_portfolio_question_run ascii_lower (PStr question_abc) =
     is_portfolio_question_run ascii_lower (PStr (ascii ''abc'')) \<and>
   is_portfolio_question_run ascii_lower (PStr question_my_stocks) \<noteq>
     is_portfolio_question_run ascii_lower (PStr question_abc) \<and>
   is_portfolio_question_run ascii_lower (PStr question_abc) =
     Inr (PDict
       [(ascii ''is_portfolio_related'', PBool False),
        (ascii ''reason'', PStr reason_unrelated),
        (ascii ''detected_keywords'', PList [])]) \<and>
   is_portfolio_question_run ascii_lower (PInt 7) = Inl AttributeError"
proof -
  have differ: "question_abc \<noteq> ascii ''abc''"
    by (simp add: question_abc_def ascii_def)
  have same: "ascii_lower question_abc = ascii_lower (ascii ''abc'')"
    by (simp add: question_abc_def ascii_lower_def ascii_def)
  have equal: "is_portfolio_question_run ascii_lower (PStr question_abc) =
      is_portfolio_question_run ascii_lower (PStr (ascii ''abc''))"
  proof -
    have "\<forall>kw \<in> set portfolio_keywords.
        (\<exists>pre post. ascii_lower question_abc = pre @ kw @ post) \<longleftrightarrow>
        (\<exists>pre post. ascii_lower (ascii ''abc'') = pre @ kw @ post)"
      unfolding same by simp
    with classify_deterministic_total [of ascii_lower question_abc "ascii ''abc''"]
    show ?thesis
      by blast
  qed
  have kw: "[45236, 32, 51452, 49885] \<in> set portfolio_keywords"
    by (simp add: portfolio_keywords_def)
  have occurs: "\<exists>pre post. ascii_lower question_my_stocks = pre @ [45236, 32, 51452, 49885] @ post"
    unfolding str_contains_iff [symmetric] by (simp add: eval_question)
  have absent: "\<not> (\<exists>pre post. ascii_lower question_abc = pre @ [45236, 32, 51452, 49885] @ post)"
    unfolding str_contains_iff [symmetric] by (simp add: eval_question)
  have unequal: "is_portfolio_question_run ascii_lower (PStr question_my_stocks) \<noteq>
      is_portfolio_question_run ascii_lower (PStr question_abc)"
    using classify_deterministic_total [of ascii_lower question_my_stocks question_abc]
      kw occurs absent
    by blast
  have "is_portfolio_question ascii_lower question_abc =
      PDict
       [(ascii ''is_portfolio_related'', PBool False),
        (ascii ''reason'', PStr reason_unrelated),
        (ascii ''detected_keywords'', PList [])]"
    using unrelated_abc
    by (simp add: is_portfolio_question_detected Let_def filter_empty_conv list_ex_iff)
  with classify_deterministic_total [of ascii_lower question_abc question_abc]
  have result: "is_portfolio_question_run ascii_lower (PStr question_abc) =
      Inr (PDict
       [(ascii ''is_portfolio_related'', PBool False),
        (ascii ''reason'', PStr reason_unrelated),
        (ascii ''detected_keywords'', PList [])])"
    by simp
  have "is_portfolio_question_run ascii_lower (PInt 7) = Inl AttributeError"
    by (simp add: is_portfolio_question_run_def)
  with differ equal unequal result show ?thesis
    by simp
qed

section \<open>The empty access key (C10)\<close>

text \<open>
  Claim C10, amended. An access key that is \<open>None\<close> or the empty string is replaced: the
  lookup is performed with the value of \<open>DEFAULT_ACCESS_KEY\<close> when the variable is set, and
  with \<open>user123\<close> otherwise. The key of the lookup is then the empty string only when
  \<open>DEFAULT_ACCESS_KEY\<close> is set to the empty string.
\<close>

theorem get_portfolio_falsy_key:
  "falsy access_key \<Longrightarrow>
   get_portfolio w access_key source =
     get_portfolio_by_key w (getenv w (ascii ''DEFAULT_ACCESS_KEY'') (ascii ''user123'')) source \<and>
   (getenv w (ascii ''DEFAULT_ACCESS_KEY'') (ascii ''user123'') = [] \<longleftrightarrow>
      environ w (ascii ''DEFAULT_ACCESS_KEY'') = Some [])"
  by (simp add: get_portfolio_def getenv_def ascii_def split: option.splits)

theorem get_portfolio_falsy_key_witness:
  "falsy (Some []) \<and> falsy None \<and>
   get_portfolio (example_world Map.empty) (Some []) (ascii ''aa.json'') =
     ([FileOpen (ascii ''aa.json'')], Inr (PDict [(ascii ''x'', PInt 2)])) \<and>
   get_portfolio (example_world [ascii ''DEFAULT_ACCESS_KEY'' \<mapsto> ascii ''u1'']) None (ascii ''aa.json'') =
     ([FileOpen (ascii ''aa.json'')], Inr (PDict [(ascii ''x'', PInt 1)]))"
proof -
  have f: "falsy (Some [])" "falsy None"
    by (simp_all add: falsy_def)
  show ?thesis
    using f get_portfolio_falsy_key [OF f(1), of "example_world Map.empty" "ascii ''aa.json''"]
      get_portfolio_falsy_key [OF f(2), of "example_world [ascii ''DEFAULT_ACCESS_KEY'' \<mapsto> ascii ''u1'']"
        "ascii ''aa.json''"]
    by (simp add: getenv_def example_world_environ example_lookups)
qed

text \<open>
  Claim C10 as stated: the lookup is never performed with the empty string. With
  \<open>DEFAULT_ACCESS_KEY\<close> set to the empty string, the call with the key \<open>""\<close> is the
  lookup of \<open>""\<close>: it returns the record stored under \<open>""\<close>, not the one of \<open>user123\<close>.
\<close>

theorem get_portfolio_falsy_key_counterexample:
  "falsy (Some []) \<and>
   get_portfolio (example_world [ascii ''DEFAULT_ACCESS_KEY'' \<mapsto> []]) (Some []) (ascii ''aa.json'') =
     get_portfolio_by_key (example_world [ascii ''DEFAULT_ACCESS_KEY'' \<mapsto> []]) [] (ascii ''aa.json'') \<and>
   get_portfolio (example_world [ascii ''DEFAULT_ACCESS_KEY'' \<mapsto> []]) (Some []) (ascii ''aa.json'') =
     ([FileOpen (ascii ''aa.json'')], Inr (PDict [(ascii ''x'', PInt 3)])) \<and>
   get_portfolio_by_key (example_world [ascii ''DEFAULT_ACCESS_KEY'' \<mapsto> []]) (ascii ''user123'')
       (ascii ''aa.json'') =
     ([FileOpen (ascii ''aa.json'')], Inr (PDict [(ascii ''x'', PInt 2)]))"
  by (simp add: get_portfolio_def falsy_def getenv_def example_world_environ example_lookups)

end
